theory Spec2Isabelle
  imports Main "HOL-Library.Sublist"
begin

section \<open>Python values and their text\<close>

text \<open>
  The development models \<^verbatim>\<open>PropertyFindingAgent.find_properties\<close> of
  \<^verbatim>\<open>ai_real_estate_agent.py\<close>. A Python \<^verbatim>\<open>str\<close> is a \<open>string\<close>; a character
  outside ASCII stands as its UTF-8 bytes. Python's unbounded \<^verbatim>\<open>int\<close> is \<open>int\<close>; an
  optional argument (\<^verbatim>\<open>None\<close> or an int) is \<open>int option\<close>. The price is declared
  \<^verbatim>\<open>float\<close> in the signature, but the form hands over the int that
  \<^verbatim>\<open>number_input\<close> returns for integer bounds, so the model takes an \<open>int\<close>;
  floating-point prices are outside the model.
\<close>

abbreviation nl :: string where
  "nl \<equiv> [CHR 0x0A]"

definition digit_char :: "nat \<Rightarrow> char" where
  "digit_char d = ''0123456789'' ! d"

fun str_nat :: "nat \<Rightarrow> string" where
  "str_nat n = (if n < 10 then [digit_char n] else str_nat (n div 10) @ [digit_char (n mod 10)])"

declare str_nat.simps [simp del]

text \<open>\<^verbatim>\<open>str(i)\<close>, which is also what \<^verbatim>\<open>f"{i}"\<close> interpolates for an int.\<close>

definition str_int :: "int \<Rightarrow> string" where
  "str_int i = (if i < 0 then CHR ''-'' # str_nat (nat (- i)) else str_nat (nat i))"

text \<open>\<^verbatim>\<open>f"{v}"\<close> for an optional int: \<^verbatim>\<open>None\<close> is interpolated as the text None.\<close>

definition fmt_opt :: "int option \<Rightarrow> string" where
  "fmt_opt v = (case v of None \<Rightarrow> ''None'' | Some i \<Rightarrow> str_int i)"

text \<open>The truth value of \<^verbatim>\<open>if v:\<close> for an optional int: \<^verbatim>\<open>None\<close> and 0 are false.\<close>

definition truthy_opt :: "int option \<Rightarrow> bool" where
  "truthy_opt v = (case v of None \<Rightarrow> False | Some i \<Rightarrow> i \<noteq> 0)"

text \<open>
  \<^verbatim>\<open>str.lower()\<close> on ASCII text. Bytes beyond ASCII are left as they are: Python's
  lower-casing of other code points is outside the model.
\<close>

definition lower_char :: "char \<Rightarrow> char" where
  "lower_char c =
     (case map_of (zip ''ABCDEFGHIJKLMNOPQRSTUVWXYZ'' ''abcdefghijklmnopqrstuvwxyz'') c of
        None \<Rightarrow> c
      | Some l \<Rightarrow> l)"

definition lower :: "string \<Rightarrow> string" where
  "lower s = map lower_char s"

text \<open>
  The values a decoded JSON response can hold (numbers with a fraction left out). A
  \<^verbatim>\<open>dict\<close> is an association list in insertion order, looked up with \<open>map_of\<close>.
\<close>

datatype pyval =
    PNone
  | PBool bool
  | PInt int
  | PStr string
  | PList "pyval list"
  | PDict "(string \<times> pyval) list"

fun truthy :: "pyval \<Rightarrow> bool" where
  "truthy PNone = False"
| "truthy (PBool b) = b"
| "truthy (PInt i) = (i \<noteq> 0)"
| "truthy (PStr s) = (s \<noteq> [])"
| "truthy (PList xs) = (xs \<noteq> [])"
| "truthy (PDict kvs) = (kvs \<noteq> [])"

text \<open>\<^verbatim>\<open>d.get(k)\<close>: the value under \<open>k\<close>, or \<^verbatim>\<open>None\<close>.\<close>

definition dict_get :: "(string \<times> pyval) list \<Rightarrow> string \<Rightarrow> pyval" where
  "dict_get kvs k = (case map_of kvs k of None \<Rightarrow> PNone | Some v \<Rightarrow> v)"

definition hex_digit :: "nat \<Rightarrow> char" where
  "hex_digit d = ''0123456789abcdef'' ! d"

text \<open>
  \<^verbatim>\<open>repr\<close> of a string: single quotes, unless the text holds a single quote and no
  double quote; the quote and the backslash are escaped, control characters are written
  as escapes. Bytes beyond ASCII are taken as printable.
\<close>

definition escape_char :: "char \<Rightarrow> char \<Rightarrow> string" where
  "escape_char q c =
     (let n = (of_char c :: nat) in
      if c = q \<or> c = CHR 0x5C then [CHR 0x5C, c]
      else if c = CHR 0x09 then [CHR 0x5C, CHR ''t'']
      else if c = CHR 0x0A then [CHR 0x5C, CHR ''n'']
      else if c = CHR 0x0D then [CHR 0x5C, CHR ''r'']
      else if n < 32 \<or> n = 127 then [CHR 0x5C, CHR ''x'', hex_digit (n div 16), hex_digit (n mod 16)]
      else [c])"

definition repr_str :: "string \<Rightarrow> string" where
  "repr_str s =
     (let q = (if CHR 0x27 \<in> set s \<and> CHR 0x22 \<notin> set s then CHR 0x22 else CHR 0x27)
      in q # concat (map (escape_char q) s) @ [q])"

fun py_repr :: "pyval \<Rightarrow> string"
  and repr_items :: "pyval list \<Rightarrow> string"
  and repr_entries :: "(string \<times> pyval) list \<Rightarrow> string" where
  "py_repr PNone = ''None''"
| "py_repr (PBool b) = (if b then ''True'' else ''False'')"
| "py_repr (PInt i) = str_int i"
| "py_repr (PStr s) = repr_str s"
| "py_repr (PList xs) = ''['' @ repr_items xs @ '']''"
| "py_repr (PDict kvs) = ''{'' @ repr_entries kvs @ ''}''"
| "repr_items [] = []"
| "repr_items [x] = py_repr x"
| "repr_items (x # y # ys) = py_repr x @ '', '' @ repr_items (y # ys)"
| "repr_entries [] = []"
| "repr_entries [(k, v)] = repr_str k @ '': '' @ py_repr v"
| "repr_entries ((k, v) # e # es) = repr_str k @ '': '' @ py_repr v @ '', '' @ repr_entries (e # es)"

text \<open>\<^verbatim>\<open>f"{v}"\<close>, that is \<^verbatim>\<open>str(v)\<close>: a string at the top level stands unquoted.\<close>

definition py_str :: "pyval \<Rightarrow> string" where
  "py_str v = (case v of PStr s \<Rightarrow> s | _ \<Rightarrow> py_repr v)"

section \<open>Errors and remote calls\<close>

text \<open>
  An exception is a value. \<open>ServiceError\<close> stands for whatever a remote client raises
  (transport failure, authentication, quota).
\<close>

datatype py_error =
    KeyError string
  | AttributeError string
  | ServiceError string

text \<open>
  The two remote services are parameters of the model: \<open>firecrawl_extract urls prompt\<close> is
  what \<^verbatim>\<open>self.firecrawl.extract\<close> returns or raises (its schema argument is a
  constant and is left out), \<open>agent_run request\<close> is the \<^verbatim>\<open>content\<close> of what
  \<^verbatim>\<open>self.agent.run\<close> returns, or what it raises. The calls made are recorded in order.
  The \<^verbatim>\<open>print\<close> statements are left out.
\<close>

datatype remote_call =
    ExtractCall "string list" string
  | RunCall string

section \<open>Category and type codes\<close>

datatype map_entry =
    Codes "(string \<times> string) list"
  | Code string

definition property_map :: "(string \<times> map_entry) list" where
  "property_map =
     [(''Residential'', Codes [(''HDB'', ''H''), (''Condo'', ''N''), (''Landed'', ''L'')]),
      (''Commercial'', Code ''com'')]"

text \<open>
  \<^verbatim>\<open>pro_type = property_map[property_category]\<close> raises \<^verbatim>\<open>KeyError\<close> on an unknown
  category; a nested dict is then read with \<^verbatim>\<open>.get(property_type, "H")\<close>.
\<close>

definition pro_type :: "string \<Rightarrow> string \<Rightarrow> py_error + string" where
  "pro_type property_category property_type =
     (case map_of property_map property_category of
        None \<Rightarrow> Inl (KeyError property_category)
      | Some (Codes d) \<Rightarrow> Inr (case map_of d property_type of None \<Rightarrow> ''H'' | Some c \<Rightarrow> c)
      | Some (Code c) \<Rightarrow> Inr c)"

section \<open>The search URL\<close>

definition search_url ::
  "int \<Rightarrow> string \<Rightarrow> int option \<Rightarrow> int option \<Rightarrow> int option \<Rightarrow> string \<Rightarrow> string" where
  "search_url max_price formatted_location bedrooms min_size max_size code =
     ''https://www.propertyguru.com.sg/property-for-sale?listingType=sale&page=1&isCommercial=false&maxPrice=''
       @ str_int max_price
       @ ''&hdbEstate=1&_freetextDisplay='' @ formatted_location
       @ ''&bedrooms='' @ fmt_opt bedrooms
       @ ''&minSize='' @ fmt_opt min_size
       @ ''&maxSize='' @ fmt_opt max_size
       @ ''&propertyTypeGroup='' @ code"

text \<open>
  Lines 64 to 85 of the source: the location is lower-cased, the code is looked up, and
  \<^verbatim>\<open>urls\<close> is the list holding the one f-string.
\<close>

definition urls ::
  "string \<Rightarrow> int \<Rightarrow> string \<Rightarrow> string \<Rightarrow> int option \<Rightarrow> int option \<Rightarrow> int option \<Rightarrow>
   py_error + string list" where
  "urls city max_price property_category property_type min_size max_size bedrooms =
     (let formatted_location = lower city in
      case pro_type property_category property_type of
        Inl e \<Rightarrow> Inl e
      | Inr code \<Rightarrow> Inr [search_url max_price formatted_location bedrooms min_size max_size code])"

section \<open>The extraction prompt\<close>

definition property_type_prompt :: "string \<Rightarrow> string" where
  "property_type_prompt property_type =
     (case map_of [(''HDB'', ''HDB Flats''), (''Condo'', ''Condominiums''), (''Landed'', ''Landed Houses'')]
             property_type of
        None \<Rightarrow> ''HDB Flats''
      | Some t \<Rightarrow> t)"

text \<open>The triple-quoted template, line by line, with its indentation.\<close>

definition prompt_base :: "string \<Rightarrow> int \<Rightarrow> string \<Rightarrow> string \<Rightarrow> string" where
  "prompt_base city max_price property_category property_type =
      ''Extract ONLY 10 OR LESS different '' @ property_category @ '' '' @ property_type_prompt property_type @ '' from '' @ city @ '' that cost less than '' @ str_int max_price @ '' SGD.'' @ nl @
      ''        '' @ nl @
      ''        Requirements:'' @ nl @
      ''        - Property Category: '' @ property_category @ '' properties only'' @ nl @
      ''        - Property Type: '' @ property_type_prompt property_type @ '' only'' @ nl @
      ''        - Location: '' @ city @ nl @
      ''        - Maximum Price: '' @ str_int max_price @ '' SGD'' @ nl @
      ''        - Include complete property details with exact location'' @ nl @
      ''        - IMPORTANT: Return data for at least 3 different properties. MAXIMUM 10.'' @ nl @
      ''        - Format as a list of properties with their respective details'' @ nl @
      ''        ''"

text \<open>The three \<^verbatim>\<open>if v: prompt += ...\<close> statements, in the order of the source.\<close>

definition extraction_prompt ::
  "string \<Rightarrow> int \<Rightarrow> string \<Rightarrow> string \<Rightarrow> int option \<Rightarrow> int option \<Rightarrow> int option \<Rightarrow> string" where
  "extraction_prompt city max_price property_category property_type min_size max_size bedrooms =
     (let prompt = prompt_base city max_price property_category property_type;
          prompt = (if truthy_opt min_size
                    then prompt @ nl @ ''- Minimum Size: '' @ fmt_opt min_size @ '' sq ft''
                    else prompt);
          prompt = (if truthy_opt max_size
                    then prompt @ nl @ ''- Maximum Size: '' @ fmt_opt max_size @ '' sq ft''
                    else prompt);
          prompt = (if truthy_opt bedrooms
                    then prompt @ nl @ ''- Number of Bedrooms: '' @ fmt_opt bedrooms
                    else prompt)
      in prompt)"

section \<open>Shaping the extraction response\<close>

text \<open>
  \<^verbatim>\<open>if isinstance(raw_response, dict) and raw_response.get('success'):\<close>
  \<^verbatim>\<open>properties = raw_response['data'].get('properties', [])\<close>, else the empty list.
  The subscript raises \<^verbatim>\<open>KeyError\<close> when there is no \<^verbatim>\<open>data\<close> entry, and
  \<^verbatim>\<open>.get\<close> raises \<^verbatim>\<open>AttributeError\<close> when the entry is not a dict.
\<close>

fun is_dict :: "pyval \<Rightarrow> bool" where
  "is_dict (PDict kvs) = True"
| "is_dict v = False"

definition properties_of :: "pyval \<Rightarrow> py_error + pyval" where
  "properties_of raw_response =
     (case raw_response of
        PDict kvs \<Rightarrow>
          (if truthy (dict_get kvs ''success'') then
             (case map_of kvs ''data'' of
                None \<Rightarrow> Inl (KeyError ''data'')
              | Some (PDict d) \<Rightarrow>
                  Inr (case map_of d ''properties'' of None \<Rightarrow> PList [] | Some v \<Rightarrow> v)
              | Some _ \<Rightarrow> Inl (AttributeError ''get''))
           else Inr (PList []))
      | _ \<Rightarrow> Inr (PList []))"

section \<open>The summarization prompt\<close>

definition emoji_house :: string where
  "emoji_house = [CHR 0xF0, CHR 0x9F, CHR 0x8F, CHR 0xA0]"

definition emoji_money :: string where
  "emoji_money = [CHR 0xF0, CHR 0x9F, CHR 0x92, CHR 0xB0]"

definition emoji_pin :: string where
  "emoji_pin = [CHR 0xF0, CHR 0x9F, CHR 0x93, CHR 0x8D]"

definition emoji_bulb :: string where
  "emoji_bulb = [CHR 0xF0, CHR 0x9F, CHR 0x92, CHR 0xA1]"

definition emoji_handshake :: string where
  "emoji_handshake = [CHR 0xF0, CHR 0x9F, CHR 0xA4, CHR 0x9D]"

definition bullet :: string where
  "bullet = [CHR 0xE2, CHR 0x80, CHR 0xA2]"

text \<open>The five section headers, as the template writes them: a pictograph and capitals.\<close>

definition header_selected :: string where
  "header_selected = emoji_house @ '' SELECTED PROPERTIES''"

definition header_best_value :: string where
  "header_best_value = emoji_money @ '' BEST VALUE ANALYSIS''"

definition header_location :: string where
  "header_location = emoji_pin @ '' LOCATION INSIGHTS''"

definition header_recommendations :: string where
  "header_recommendations = emoji_bulb @ '' RECOMMENDATIONS''"

definition header_negotiation :: string where
  "header_negotiation = emoji_handshake @ '' NEGOTIATION TIPS''"

definition summary_prompt :: "pyval \<Rightarrow> string \<Rightarrow> string \<Rightarrow> int \<Rightarrow> string" where
  "summary_prompt properties property_category property_type max_price =
      ''As a real estate expert, analyze these properties and market trends:'' @ nl @
      nl @
      ''            Properties Found in json format:'' @ nl @
      ''            '' @ py_str properties @ nl @
      nl @
      ''            **IMPORTANT INSTRUCTIONS:**'' @ nl @
      ''            1. ONLY analyze properties from the above JSON data that match the user'' @ [CHR 0x27] @ ''s requirements:'' @ nl @
      ''               - Property Category: '' @ property_category @ nl @
      ''               - Property Type: '' @ property_type @ nl @
      ''               - Maximum Price: '' @ str_int max_price @ '' SGD'' @ nl @
      ''            2. DO NOT create new categories or property types'' @ nl @
      ''            3. From the matching properties, select 5-6 properties with prices closest to '' @ str_int max_price @ '' SGD'' @ nl @
      nl @
      ''            Please provide your analysis in this format:'' @ nl @
      ''            '' @ nl @
      ''            '' @ header_selected @ nl @
      ''            '' @ bullet @ '' List only 5-6 best matching properties with prices closest to '' @ str_int max_price @ '' SGD'' @ nl @
      ''            '' @ bullet @ '' For each property include:'' @ nl @
      ''              - Name and Location'' @ nl @
      ''              - Price (with value analysis)'' @ nl @
      ''              - Key Features'' @ nl @
      ''              - Pros and Cons'' @ nl @
      nl @
      ''            '' @ header_best_value @ nl @
      ''            '' @ bullet @ '' Compare the selected properties based on:'' @ nl @
      ''              - Price per sq ft'' @ nl @
      ''              - Location advantage'' @ nl @
      ''              - Amenities offered'' @ nl @
      nl @
      ''            '' @ header_location @ nl @
      ''            '' @ bullet @ '' Specific advantages of the areas where selected properties are located'' @ nl @
      nl @
      ''            '' @ header_recommendations @ nl @
      ''            '' @ bullet @ '' Top 3 properties from the selection with reasoning'' @ nl @
      ''            '' @ bullet @ '' Investment potential'' @ nl @
      ''            '' @ bullet @ '' Points to consider before purchase'' @ nl @
      nl @
      ''            '' @ header_negotiation @ nl @
      ''            '' @ bullet @ '' Property-specific negotiation strategies'' @ nl @
      nl @
      ''            Format your response in a clear, structured way using the above sections.'' @ nl @
      ''            ''"

section \<open>The operation\<close>

definition find_properties ::
  "(string list \<Rightarrow> string \<Rightarrow> py_error + pyval) \<Rightarrow> (string \<Rightarrow> py_error + string) \<Rightarrow>
   string \<Rightarrow> int \<Rightarrow> string \<Rightarrow> string \<Rightarrow> int option \<Rightarrow> int option \<Rightarrow> int option \<Rightarrow>
   (py_error + string) \<times> remote_call list" where
  "find_properties firecrawl_extract agent_run city max_price property_category property_type
       min_size max_size bedrooms =
     (case urls city max_price property_category property_type min_size max_size bedrooms of
        Inl e \<Rightarrow> (Inl e, [])
      | Inr us \<Rightarrow>
          (let prompt = extraction_prompt city max_price property_category property_type
                          min_size max_size bedrooms;
               calls = [ExtractCall us prompt]
           in case firecrawl_extract us prompt of
                Inl e \<Rightarrow> (Inl e, calls)
              | Inr raw_response \<Rightarrow>
                  (case properties_of raw_response of
                     Inl e \<Rightarrow> (Inl e, calls)
                   | Inr properties \<Rightarrow>
                       (let request = summary_prompt properties property_category property_type
                                        max_price
                        in (agent_run request, calls @ [RunCall request])))))"

section \<open>Sample services and a containment predicate\<close>

text \<open>An extraction service that raises, one that answers with a failure flag, one that
  answers with eleven records, and a completion service that answers with a fixed report.\<close>

definition failing_extract :: "string list \<Rightarrow> string \<Rightarrow> py_error + pyval" where
  "failing_extract us prompt = Inl (ServiceError ''connection refused'')"

definition refusing_extract :: "string list \<Rightarrow> string \<Rightarrow> py_error + pyval" where
  "refusing_extract us prompt = Inr (PDict [(''success'', PBool False)])"

definition sample_record :: pyval where
  "sample_record =
     PDict [(''Building_name'', PStr ''Block 1''), (''Property_type'', PStr ''HDB''),
            (''location_address'', PStr ''Punggol''), (''Price'', PStr ''450000''),
            (''Description'', PStr ''flat'')]"

definition eleven_records :: pyval where
  "eleven_records =
     PDict [(''success'', PBool True),
            (''data'', PDict [(''properties'', PList (replicate 11 sample_record))])]"

definition report_agent :: "string \<Rightarrow> py_error + string" where
  "report_agent request = Inr ''report''"


section \<open>Facts about the rendering and the templates\<close>

lemma digit_char_not_nl: "d < 10 \<Longrightarrow> CHR 0x0A \<noteq> digit_char d"
proof -
  assume "d < 10"
  then have "d \<in> {0,1,2,3,4,5,6,7,8,9}" by auto
  then show ?thesis by (auto simp: digit_char_def)
qed

lemma str_nat_no_nl: "CHR 0x0A \<notin> set (str_nat n)"
proof (induction n rule: str_nat.induct)
  case (1 n)
  show ?case
  proof (cases "n < 10")
    case True
    then show ?thesis by (simp add: str_nat.simps [of n] digit_char_not_nl)
  next
    case False
    with 1 show ?thesis by (simp add: str_nat.simps [of n] digit_char_not_nl)
  qed
qed

lemma str_int_no_nl: "CHR 0x0A \<notin> set (str_int i)"
  by (simp add: str_int_def str_nat_no_nl)

lemma count_nl_str_int: "count_list (str_int i) (CHR 0x0A) = 0"
  by (simp add: count_notin str_int_no_nl)




lemma sublist_skip: "sublist s t \<Longrightarrow> sublist s (x @ t)"
  by (metis append.assoc sublist_def)

lemma summary_prompt_embeds:
  "sublist (py_str properties) (summary_prompt properties property_category property_type max_price)"
  unfolding summary_prompt_def
  by (rule sublist_append_rightI | rule sublist_skip)+

lemma count_nl_fmt_opt: "truthy_opt v \<Longrightarrow> count_list (fmt_opt v) (CHR 0x0A) = 0"
  by (cases v) (simp_all add: truthy_opt_def fmt_opt_def count_nl_str_int)

text \<open>
  A response that reports success but has no \<^verbatim>\<open>data\<close> entry, or one that is not a
  dict, is not shaped into an empty list: the lookup raises.
\<close>

lemma properties_of_missing_data:
  "truthy (dict_get kvs ''success'') \<Longrightarrow> map_of kvs ''data'' = None \<Longrightarrow>
     properties_of (PDict kvs) = Inl (KeyError ''data'')"
  by (simp add: properties_of_def)

lemma properties_of_data_not_dict:
  "truthy (dict_get kvs ''success'') \<Longrightarrow> map_of kvs ''data'' = Some v \<Longrightarrow> \<not> is_dict v \<Longrightarrow>
     properties_of (PDict kvs) = Inl (AttributeError ''get'')"
  by (cases v) (simp_all add: properties_of_def)

section \<open>Claims\<close>

text \<open>
  C1 (as amended). The response shaping returns the empty list when the response is not a
  dict, when its success flag is false or missing, and when the data payload has no
  \<^verbatim>\<open>properties\<close> entry; it returns the supplied value unchanged when the flag is
  true and the entry is there. An error raised by the extraction call is not caught: the
  operation ends with that error after the one extraction call, and no summarization
  request is made.
\<close>

theorem extraction_invoker_outcomes:
  "(\<not> is_dict raw \<longrightarrow> properties_of raw = Inr (PList []))
   \<and> (\<not> truthy (dict_get kvs ''success'') \<longrightarrow> properties_of (PDict kvs) = Inr (PList []))
   \<and> (truthy (dict_get kvs ''success'') \<and> map_of kvs ''data'' = Some (PDict d)
        \<and> map_of d ''properties'' = None
      \<longrightarrow> properties_of (PDict kvs) = Inr (PList []))
   \<and> (truthy (dict_get kvs ''success'') \<and> map_of kvs ''data'' = Some (PDict d)
        \<and> map_of d ''properties'' = Some v
      \<longrightarrow> properties_of (PDict kvs) = Inr v)
   \<and> (urls city max_price property_category property_type min_size max_size bedrooms = Inr us
        \<and> firecrawl_extract us
             (extraction_prompt city max_price property_category property_type
                min_size max_size bedrooms) = Inl e
      \<longrightarrow> find_properties firecrawl_extract agent_run city max_price property_category
            property_type min_size max_size bedrooms
          = (Inl e,
             [ExtractCall us
                (extraction_prompt city max_price property_category property_type
                   min_size max_size bedrooms)]))"
proof -
  have not_dict: "\<not> is_dict raw \<longrightarrow> properties_of raw = Inr (PList [])"
    by (cases raw) (simp_all add: properties_of_def)
  have raised:
    "urls city max_price property_category property_type min_size max_size bedrooms = Inr us
       \<and> firecrawl_extract us
            (extraction_prompt city max_price property_category property_type
               min_size max_size bedrooms) = Inl e
     \<longrightarrow> find_properties firecrawl_extract agent_run city max_price property_category
           property_type min_size max_size bedrooms
         = (Inl e,
            [ExtractCall us
               (extraction_prompt city max_price property_category property_type
                  min_size max_size bedrooms)])"
    by (simp add: find_properties_def Let_def)
  from not_dict raised show ?thesis
    by (simp add: properties_of_def)
qed

theorem extraction_invoker_outcomes_witness:
  "properties_of PNone = Inr (PList [])
   \<and> properties_of (PDict [(''success'', PBool False)]) = Inr (PList [])
   \<and> properties_of (PDict [(''success'', PBool True), (''data'', PDict [])]) = Inr (PList [])
   \<and> properties_of
        (PDict [(''success'', PBool True),
                (''data'', PDict [(''properties'', PList [sample_record])])])
      = Inr (PList [sample_record])
   \<and> find_properties failing_extract report_agent ''Punggol'' 500000 ''Residential'' ''HDB''
        None None None
      = (Inl (ServiceError ''connection refused''),
         [ExtractCall [search_url 500000 ''punggol'' None None None ''H'']
            (extraction_prompt ''Punggol'' 500000 ''Residential'' ''HDB'' None None None)])"
proof -
  have u: "urls ''Punggol'' 500000 ''Residential'' ''HDB'' None None None
             = Inr [search_url 500000 ''punggol'' None None None ''H'']"
    by (simp add: urls_def pro_type_def property_map_def lower_def lower_char_def)
  show ?thesis
    using u
      extraction_invoker_outcomes [of PNone "[(''success'', PBool False)]"]
      extraction_invoker_outcomes
        [of PNone "[(''success'', PBool True), (''data'', PDict [])]" "[]"]
      extraction_invoker_outcomes
        [of PNone
            "[(''success'', PBool True),
              (''data'', PDict [(''properties'', PList [sample_record])])]"
            "[(''properties'', PList [sample_record])]" "PList [sample_record]"]
      extraction_invoker_outcomes
        [of PNone "[]" "[]" PNone "''Punggol''" 500000 "''Residential''" "''HDB''"
            None None None "[search_url 500000 ''punggol'' None None None ''H'']"
            failing_extract "ServiceError ''connection refused''" report_agent]
    by (simp add: dict_get_def failing_extract_def)
qed

text \<open>
  C1, the claim as stated, fails: with an extraction service that raises, the operation
  does not go on with an empty record list; it ends with the error raised, and the
  completion service is never called.
\<close>

theorem transport_error_not_caught:
  "find_properties failing_extract report_agent ''Punggol'' 500000 ''Residential'' ''HDB''
     None None None
   = (Inl (ServiceError ''connection refused''),
      [ExtractCall [search_url 500000 ''punggol'' None None None ''H'']
         (extraction_prompt ''Punggol'' 500000 ''Residential'' ''HDB'' None None None)])"
  by (simp add: find_properties_def urls_def pro_type_def property_map_def lower_def
      lower_char_def failing_extract_def Let_def)

text \<open>
  C2. For category Residential the types HDB, Condo and Landed map to H, N and L, and any
  other type maps to H; for category Commercial the code is com whatever the type.
\<close>

theorem pro_type_codes:
  "pro_type ''Residential'' ''HDB'' = Inr ''H''
   \<and> pro_type ''Residential'' ''Condo'' = Inr ''N''
   \<and> pro_type ''Residential'' ''Landed'' = Inr ''L''
   \<and> (property_type \<noteq> ''HDB'' \<and> property_type \<noteq> ''Condo'' \<and> property_type \<noteq> ''Landed''
      \<longrightarrow> pro_type ''Residential'' property_type = Inr ''H'')
   \<and> pro_type ''Commercial'' property_type = Inr ''com''"
  by (simp add: pro_type_def property_map_def)

theorem pro_type_codes_witness:
  "pro_type ''Residential'' ''Shophouse'' = Inr ''H''
   \<and> pro_type ''Commercial'' ''Shophouse'' = Inr ''com''"
  using pro_type_codes [of "''Shophouse''"] by simp

text \<open>
  C3 (as amended). The extraction prompt is the base template followed by one line for each
  optional filter that is present and not zero, in the order minimum size, maximum size,
  bedrooms; each such line adds exactly one line break, and nothing is appended when no
  filter is present and not zero.
\<close>

theorem extraction_prompt_lines:
  "extraction_prompt city max_price property_category property_type min_size max_size bedrooms
     = prompt_base city max_price property_category property_type
       @ concat (map (\<lambda>(label, v, unit). nl @ label @ fmt_opt v @ unit)
                  (filter (\<lambda>(label, v, unit). truthy_opt v)
                     [(''- Minimum Size: '', min_size, '' sq ft''),
                      (''- Maximum Size: '', max_size, '' sq ft''),
                      (''- Number of Bedrooms: '', bedrooms, [])]))
   \<and> count_list
        (extraction_prompt city max_price property_category property_type
           min_size max_size bedrooms) (CHR 0x0A)
     = count_list (prompt_base city max_price property_category property_type) (CHR 0x0A)
       + length (filter truthy_opt [min_size, max_size, bedrooms])"
  by (simp add: extraction_prompt_def Let_def count_nl_fmt_opt)

text \<open>
  C3, the claim as stated, fails: a bedroom count of 0 is present, yet the prompt has no
  more line breaks than the base template, where one line per present filter would give
  one more.
\<close>

theorem zero_bedrooms_appends_no_line:
  "count_list
     (extraction_prompt ''Punggol'' 500000 ''Residential'' ''HDB'' None None (Some 0))
     (CHR 0x0A)
   \<noteq> count_list (prompt_base ''Punggol'' 500000 ''Residential'' ''HDB'') (CHR 0x0A)
       + length (filter (\<lambda>v. v \<noteq> None) [None, None, Some (0::int)])"
  by (simp add: extraction_prompt_def Let_def truthy_opt_def)





text \<open>
  C6. When the extraction service answers with a false success flag, the record list is
  empty and the operation goes on: a summarization request that embeds the text of the
  empty list is built and sent, and the operation's outcome is the completion service's.
\<close>

theorem failed_extraction_still_summarized:
  assumes "urls city max_price property_category property_type min_size max_size bedrooms
             = Inr us"
    and "firecrawl_extract us
           (extraction_prompt city max_price property_category property_type
              min_size max_size bedrooms) = Inr (PDict kvs)"
    and "map_of kvs ''success'' = Some (PBool False)"
  shows "properties_of (PDict kvs) = Inr (PList [])
         \<and> find_properties firecrawl_extract agent_run city max_price property_category
             property_type min_size max_size bedrooms
           = (agent_run (summary_prompt (PList []) property_category property_type max_price),
              [ExtractCall us
                 (extraction_prompt city max_price property_category property_type
                    min_size max_size bedrooms),
               RunCall (summary_prompt (PList []) property_category property_type max_price)])
         \<and> py_str (PList []) = ''[]''
         \<and> sublist (py_str (PList []))
             (summary_prompt (PList []) property_category property_type max_price)"
proof -
  from assms(3) have empty: "properties_of (PDict kvs) = Inr (PList [])"
    by (simp add: properties_of_def dict_get_def)
  with assms(1,2) have
    "find_properties firecrawl_extract agent_run city max_price property_category
       property_type min_size max_size bedrooms
     = (agent_run (summary_prompt (PList []) property_category property_type max_price),
        [ExtractCall us
           (extraction_prompt city max_price property_category property_type
              min_size max_size bedrooms),
         RunCall (summary_prompt (PList []) property_category property_type max_price)])"
    by (simp add: find_properties_def Let_def)
  moreover have "py_str (PList []) = ''[]''"
    by (simp add: py_str_def)
  ultimately show ?thesis
    using empty summary_prompt_embeds [of "PList []" property_category property_type max_price]
    by simp
qed

theorem failed_extraction_still_summarized_witness:
  "find_properties refusing_extract report_agent ''Punggol'' 500000 ''Residential'' ''HDB''
     None None None
   = (Inr ''report'',
      [ExtractCall [search_url 500000 ''punggol'' None None None ''H'']
         (extraction_prompt ''Punggol'' 500000 ''Residential'' ''HDB'' None None None),
       RunCall (summary_prompt (PList []) ''Residential'' ''HDB'' 500000)])"
proof -
  have u: "urls ''Punggol'' 500000 ''Residential'' ''HDB'' None None None
             = Inr [search_url 500000 ''punggol'' None None None ''H'']"
    by (simp add: urls_def pro_type_def property_map_def lower_def lower_char_def)
  have r: "refusing_extract [search_url 500000 ''punggol'' None None None ''H'']
             (extraction_prompt ''Punggol'' 500000 ''Residential'' ''HDB'' None None None)
           = Inr (PDict [(''success'', PBool False)])"
    by (simp add: refusing_extract_def)
  have s: "map_of [(''success'', PBool False)] ''success'' = Some (PBool False)"
    by simp
  from failed_extraction_still_summarized
         [where firecrawl_extract = refusing_extract and agent_run = report_agent, OF u r s]
  show ?thesis by (simp add: report_agent_def)
qed

text \<open>
  C7. An optional filter that is absent is not left out of the URL: its query parameter
  stays in place, with the text None as its value.
\<close>

theorem absent_filters_in_url:
  assumes "property_category = ''Residential'' \<or> property_category = ''Commercial''"
  shows "\<exists>u. urls city max_price property_category property_type min_size max_size bedrooms
               = Inr [u]
             \<and> (bedrooms = None \<longrightarrow> sublist ''&bedrooms=None&minSize='' u)
             \<and> (min_size = None \<longrightarrow> sublist ''&minSize=None&maxSize='' u)
             \<and> (max_size = None \<longrightarrow> sublist ''&maxSize=None&propertyTypeGroup='' u)"
proof -
  from assms obtain code where c: "pro_type property_category property_type = Inr code"
    by (auto simp: pro_type_def property_map_def split: option.splits)
  let ?u = "search_url max_price (lower city) bedrooms min_size max_size code"
  have built:
    "urls city max_price property_category property_type min_size max_size bedrooms = Inr [?u]"
    by (simp add: urls_def c)
  have mid: "\<And>a v b pre post. sublist (a @ v @ b) (pre @ a @ v @ b @ post)"
    by (metis append.assoc sublist_appendI)
  have b: "bedrooms = None \<longrightarrow> sublist ''&bedrooms=None&minSize='' ?u"
  proof
    assume "bedrooms = None"
    then have "?u = (''https://www.propertyguru.com.sg/property-for-sale?listingType=sale&page=1&isCommercial=false&maxPrice=''
                      @ str_int max_price @ ''&hdbEstate=1&_freetextDisplay='' @ lower city)
                    @ ''&bedrooms='' @ ''None'' @ ''&minSize=''
                    @ (fmt_opt min_size @ ''&maxSize='' @ fmt_opt max_size
                       @ ''&propertyTypeGroup='' @ code)"
      by (simp add: search_url_def fmt_opt_def)
    moreover have "''&bedrooms=None&minSize='' = ''&bedrooms='' @ ''None'' @ ''&minSize=''"
      by simp
    ultimately show "sublist ''&bedrooms=None&minSize='' ?u"
      by (simp only: mid)
  qed
  have m: "min_size = None \<longrightarrow> sublist ''&minSize=None&maxSize='' ?u"
  proof
    assume "min_size = None"
    then have "?u = (''https://www.propertyguru.com.sg/property-for-sale?listingType=sale&page=1&isCommercial=false&maxPrice=''
                      @ str_int max_price @ ''&hdbEstate=1&_freetextDisplay='' @ lower city
                      @ ''&bedrooms='' @ fmt_opt bedrooms)
                    @ ''&minSize='' @ ''None'' @ ''&maxSize=''
                    @ (fmt_opt max_size @ ''&propertyTypeGroup='' @ code)"
      by (simp add: search_url_def fmt_opt_def)
    moreover have "''&minSize=None&maxSize='' = ''&minSize='' @ ''None'' @ ''&maxSize=''"
      by simp
    ultimately show "sublist ''&minSize=None&maxSize='' ?u"
      by (simp only: mid)
  qed
  have x: "max_size = None \<longrightarrow> sublist ''&maxSize=None&propertyTypeGroup='' ?u"
  proof
    assume "max_size = None"
    then have "?u = (''https://www.propertyguru.com.sg/property-for-sale?listingType=sale&page=1&isCommercial=false&maxPrice=''
                      @ str_int max_price @ ''&hdbEstate=1&_freetextDisplay='' @ lower city
                      @ ''&bedrooms='' @ fmt_opt bedrooms @ ''&minSize='' @ fmt_opt min_size)
                    @ ''&maxSize='' @ ''None'' @ ''&propertyTypeGroup=''
                    @ (code @ [])"
      by (simp add: search_url_def fmt_opt_def)
    moreover have "''&maxSize=None&propertyTypeGroup=''
                     = ''&maxSize='' @ ''None'' @ ''&propertyTypeGroup=''"
      by simp
    ultimately show "sublist ''&maxSize=None&propertyTypeGroup='' ?u"
      by (simp only: mid)
  qed
  from built b m x show ?thesis by blast
qed

theorem absent_filters_in_url_witness:
  "\<exists>u. urls ''Punggol'' 500000 ''Residential'' ''HDB'' None None None = Inr [u]
       \<and> sublist ''&bedrooms=None&minSize='' u
       \<and> sublist ''&minSize=None&maxSize='' u
       \<and> sublist ''&maxSize=None&propertyTypeGroup='' u"
proof -
  have "''Residential'' = ''Residential'' \<or> ''Residential'' = ''Commercial''"
    by simp
  from absent_filters_in_url [OF this, of "''Punggol''" 500000 "''HDB''" None None None]
  show ?thesis by simp
qed

text \<open>
  C8 (as amended). When the success flag is true and the data payload holds a record list,
  the list is returned as the service gave it: as many entries, each at its place. The code
  puts no bound on their number.
\<close>

theorem extraction_records_unchanged:
  assumes "truthy (dict_get kvs ''success'')"
    and "map_of kvs ''data'' = Some (PDict d)"
    and "map_of d ''properties'' = Some (PList records)"
  shows "\<exists>out. properties_of (PDict kvs) = Inr (PList out)
               \<and> length out = length records
               \<and> (\<forall>i<length records. out ! i = records ! i)"
  using assms by (simp add: properties_of_def)

theorem extraction_records_unchanged_witness:
  "\<exists>out. properties_of eleven_records = Inr (PList out)
         \<and> length out = 11
         \<and> (\<forall>i<11. out ! i = replicate 11 sample_record ! i)"
proof -
  have s: "truthy (dict_get [(''success'', PBool True),
                             (''data'', PDict [(''properties'', PList (replicate 11 sample_record))])]
                     ''success'')"
    by (simp add: dict_get_def)
  have d: "map_of [(''success'', PBool True),
                   (''data'', PDict [(''properties'', PList (replicate 11 sample_record))])]
             ''data''
           = Some (PDict [(''properties'', PList (replicate 11 sample_record))])"
    by simp
  have p: "map_of [(''properties'', PList (replicate 11 sample_record))] ''properties''
           = Some (PList (replicate 11 sample_record))"
    by simp
  from extraction_records_unchanged [OF s d p]
  show ?thesis by (simp add: eleven_records_def)
qed

text \<open>
  C8, the claim as stated, fails: a successful response with eleven records is passed on
  with all eleven.
\<close>

theorem eleven_records_pass_uncapped:
  "properties_of eleven_records = Inr (PList (replicate 11 sample_record))
   \<and> \<not> length (replicate 11 sample_record) \<le> 10"
  by (simp add: properties_of_def eleven_records_def dict_get_def)

text \<open>
  C9. A minimum size, maximum size or bedroom count of 0 gives the same prompt as an absent
  one: no line is appended for it.
\<close>

theorem zero_filter_like_absent:
  "extraction_prompt city max_price property_category property_type (Some 0) max_size bedrooms
     = extraction_prompt city max_price property_category property_type None max_size bedrooms
   \<and> extraction_prompt city max_price property_category property_type min_size (Some 0) bedrooms
     = extraction_prompt city max_price property_category property_type min_size None bedrooms
   \<and> extraction_prompt city max_price property_category property_type min_size max_size (Some 0)
     = extraction_prompt city max_price property_category property_type min_size max_size None
   \<and> extraction_prompt city max_price property_category property_type (Some 0) (Some 0) (Some 0)
     = prompt_base city max_price property_category property_type"
  by (simp add: extraction_prompt_def truthy_opt_def Let_def)

text \<open>
  C10. For a category other than Residential and Commercial the operation ends with the
  key-lookup error on that category, and no remote call has been made. An unknown type
  under Residential, by contrast, never fails.
\<close>

theorem unknown_category_key_error:
  assumes "property_category \<noteq> ''Residential''" and "property_category \<noteq> ''Commercial''"
  shows "find_properties firecrawl_extract agent_run city max_price property_category
           property_type min_size max_size bedrooms
         = (Inl (KeyError property_category), [])
         \<and> (\<exists>code. pro_type ''Residential'' property_type = Inr code)"
  using assms
  by (simp add: find_properties_def urls_def pro_type_def property_map_def
      split: option.splits)

theorem unknown_category_key_error_witness:
  "find_properties refusing_extract report_agent ''Punggol'' 500000 ''Industrial'' ''HDB''
     None None None
   = (Inl (KeyError ''Industrial''), [])"
proof -
  have r: "''Industrial'' \<noteq> ''Residential''" by simp
  have c: "''Industrial'' \<noteq> ''Commercial''" by simp
  from unknown_category_key_error
         [OF r c, where firecrawl_extract = refusing_extract and agent_run = report_agent
            and city = "''Punggol''" and max_price = 500000 and property_type = "''HDB''"
            and min_size = None and max_size = None and bedrooms = None]
  show ?thesis by simp
qed

end
